theory Spec2Isabelle
  imports Complex_Main "HOL-Library.Sublist"
begin

section \<open>JavaScript values and exceptions\<close>

text \<open>
  The three endpoints and the wizard component are TypeScript. Strings are \<^typ>\<open>string\<close>
  (8-bit characters), optional properties are \<^typ>\<open>'a option\<close> with \<^term>\<open>None\<close> for
  \<^verbatim>\<open>undefined\<close>, and a finite JavaScript number is a \<^typ>\<open>rat\<close> (every finite double is one;
  both zeros are \<^term>\<open>0::rat\<close>). A thrown exception is a value of \<open>error\<close>; where the wording
  of a message is chosen by the JavaScript engine, the environment supplies it.
\<close>

datatype error = Error string | SyntaxError string | TypeError string

fun message :: "error \<Rightarrow> string" where
  "message (Error m) = m"
| "message (SyntaxError m) = m"
| "message (TypeError m) = m"

datatype json =
    JNull
  | JBool bool
  | JNum rat
  | JStr string
  | JArr "json list"
  | JObj "(string \<times> json) list"

text \<open>Property lookup on a parsed JSON value: only an object has the properties read here.\<close>

fun json_get :: "json \<Rightarrow> string \<Rightarrow> json option" where
  "json_get (JObj kvs) k = map_of kvs k"
| "json_get _ k = None"

text \<open>
  A text produced by the AI provider is represented by what \<^verbatim>\<open>JSON.parse\<close> makes of it:
  \<open>Json v\<close> is a text that is valid JSON and denotes \<open>v\<close>; \<open>NotJson s\<close> is the text \<open>s\<close>,
  which is not valid JSON (the empty text is \<open>NotJson []\<close>).
\<close>

datatype reply_text = NotJson string | Json json

fun text_empty :: "reply_text \<Rightarrow> bool" where
  "text_empty (NotJson s) = (s = [])"
| "text_empty (Json v) = False"

text \<open>\<^verbatim>\<open>JSON.parse(x)\<close>; \<^verbatim>\<open>undefined\<close> is read as the text "undefined", which is not JSON.\<close>

fun JSON_parse :: "reply_text option \<Rightarrow> error + json" where
  "JSON_parse None = Inl (SyntaxError ''JSON.parse'')"
| "JSON_parse (Some (NotJson s)) = Inl (SyntaxError ''JSON.parse'')"
| "JSON_parse (Some (Json v)) = Inr v"

text \<open>\<^verbatim>\<open>a || b\<close> on an optional string: \<^verbatim>\<open>undefined\<close> and the empty string are falsy.\<close>

fun or_else :: "string option \<Rightarrow> string \<Rightarrow> string" where
  "or_else None d = d"
| "or_else (Some s) d = (if s = [] then d else s)"

text \<open>An optional string inside a template literal: \<^verbatim>\<open>undefined\<close> prints as that word.\<close>

fun interp :: "string option \<Rightarrow> string" where
  "interp None = ''undefined''"
| "interp (Some s) = s"

text \<open>\<^verbatim>\<open>Array.prototype.join\<close> on an array of strings.\<close>

fun join :: "string \<Rightarrow> string list \<Rightarrow> string" where
  "join sep [] = []"
| "join sep [x] = x"
| "join sep (x # y # ys) = x @ sep @ join sep (y # ys)"

subsection \<open>Computations that log their effects and may throw\<close>

text \<open>
  A handler is a pair: its completion (\<open>Inl\<close> a thrown exception, \<open>Inr\<close> a result) and the
  effects it performed, in order. \<open>try_catch\<close> and \<open>try_finally\<close> are the two
  \<^verbatim>\<open>try\<close> statements of the source.
\<close>

type_synonym ('e, 'a) action = "(error + 'a) \<times> 'e list"

definition ret :: "'a \<Rightarrow> ('e, 'a) action" where
  "ret x = (Inr x, [])"

definition throw :: "error \<Rightarrow> ('e, 'a) action" where
  "throw e = (Inl e, [])"

definition emit :: "'e \<Rightarrow> ('e, unit) action" where
  "emit e = (Inr (), [e])"

definition and_then :: "('e, 'a) action \<Rightarrow> ('a \<Rightarrow> ('e, 'b) action) \<Rightarrow> ('e, 'b) action" where
  "and_then m f =
     (case m of
        (Inl e, t) \<Rightarrow> (Inl e, t)
      | (Inr x, t) \<Rightarrow> (case f x of (r, t') \<Rightarrow> (r, t @ t')))"

definition try_catch :: "('e, 'a) action \<Rightarrow> (error \<Rightarrow> ('e, 'a) action) \<Rightarrow> ('e, 'a) action" where
  "try_catch m h =
     (case m of
        (Inl e, t) \<Rightarrow> (case h e of (r, t') \<Rightarrow> (r, t @ t'))
      | (Inr x, t) \<Rightarrow> (Inr x, t))"

definition try_finally :: "('e, 'a) action \<Rightarrow> ('e, unit) action \<Rightarrow> ('e, 'a) action" where
  "try_finally m fin =
     (case m of
        (r, t) \<Rightarrow> (case fin of (Inl e, t') \<Rightarrow> (Inl e, t @ t') | (Inr u, t') \<Rightarrow> (r, t @ t')))"

section \<open>The wizard's data\<close>

text \<open>
  \<^verbatim>\<open>interface BusinessData\<close>, with the seven further fields the step forms write and the
  request schema lists. Every field is optional; a select or text field holds a string, a
  tags field an array of strings.
\<close>

record BusinessData =
  businessName :: "string option"
  industry :: "string option"
  targetMarket :: "string option"
  currentRevenue :: "string option"
  primaryChallenges :: "string list option"
  timeWasters :: "string list option"
  costCenters :: "string list option"
  competitors :: "string list option"
  differentiators :: "string list option"
  marketPosition :: "string option"
  aiGoals :: "string list option"
  budget :: "string option"
  timeline :: "string option"
  teamReadiness :: "string option"
  kpis :: "string list option"
  successCriteria :: "string option"
  reportingFrequency :: "string option"

text \<open>The empty object \<^verbatim>\<open>{}\<close>.\<close>

definition no_data :: BusinessData where
  "no_data = \<lparr>businessName = None, industry = None, targetMarket = None, currentRevenue = None,
     primaryChallenges = None, timeWasters = None, costCenters = None, competitors = None,
     differentiators = None, marketPosition = None, aiGoals = None, budget = None,
     timeline = None, teamReadiness = None, kpis = None, successCriteria = None,
     reportingFrequency = None\<rparr>"

text \<open>\<^verbatim>\<open>interface WizardStep\<close>; the icon, an emoji, is presentation and left out
  (\<open>id\<close> and \<open>fields\<close> are taken in HOL, hence the prefix).\<close>

record WizardStep =
  step_id :: int
  title :: string
  description :: string
  step_fields :: "string list"

definition businessWizardSteps :: "WizardStep list" where
  "businessWizardSteps =
    [\<lparr>step_id = 1, title = ''Business Foundation'',
       description = ''Define your core business model and target market'',
       step_fields = [''businessName'', ''industry'', ''targetMarket'', ''currentRevenue'']\<rparr>,
     \<lparr>step_id = 2, title = ''Current Challenges'',
       description = ''Identify pain points and inefficiencies'',
       step_fields = [''primaryChallenges'', ''timeWasters'', ''costCenters'']\<rparr>,
     \<lparr>step_id = 3, title = ''Competitive Analysis'',
       description = ''Understand your competitive landscape'',
       step_fields = [''competitors'', ''differentiators'', ''marketPosition'']\<rparr>,
     \<lparr>step_id = 4, title = ''AI Strategy Planning'',
       description = ''Define your AI implementation strategy'',
       step_fields = [''aiGoals'', ''budget'', ''timeline'', ''teamReadiness'']\<rparr>,
     \<lparr>step_id = 5, title = ''Success Metrics'',
       description = ''Set measurable goals and KPIs'',
       step_fields = [''kpis'', ''successCriteria'', ''reportingFrequency'']\<rparr>]"

section \<open>The form fields\<close>

text \<open>
  Each \<^verbatim>\<open>FormField\<close> of the five step components shows \<^verbatim>\<open>data.k\<close> and reports a new
  value \<open>v\<close> as the one-key object \<^verbatim>\<open>{ k: v }\<close>. Ten fields are text, textarea or select
  fields, seven are tags fields.
\<close>

datatype text_field =
    BusinessName | Industry | TargetMarket | CurrentRevenue | MarketPosition
  | Budget | Timeline | TeamReadiness | SuccessCriteria | ReportingFrequency

datatype tags_field =
    PrimaryChallenges | TimeWasters | CostCenters | Competitors | Differentiators
  | AiGoals | Kpis

fun text_value :: "text_field \<Rightarrow> BusinessData \<Rightarrow> string option" where
  "text_value BusinessName d = businessName d"
| "text_value Industry d = industry d"
| "text_value TargetMarket d = targetMarket d"
| "text_value CurrentRevenue d = currentRevenue d"
| "text_value MarketPosition d = marketPosition d"
| "text_value Budget d = budget d"
| "text_value Timeline d = timeline d"
| "text_value TeamReadiness d = teamReadiness d"
| "text_value SuccessCriteria d = successCriteria d"
| "text_value ReportingFrequency d = reportingFrequency d"

fun text_change :: "text_field \<Rightarrow> string \<Rightarrow> BusinessData" where
  "text_change BusinessName v = no_data\<lparr>businessName := Some v\<rparr>"
| "text_change Industry v = no_data\<lparr>industry := Some v\<rparr>"
| "text_change TargetMarket v = no_data\<lparr>targetMarket := Some v\<rparr>"
| "text_change CurrentRevenue v = no_data\<lparr>currentRevenue := Some v\<rparr>"
| "text_change MarketPosition v = no_data\<lparr>marketPosition := Some v\<rparr>"
| "text_change Budget v = no_data\<lparr>budget := Some v\<rparr>"
| "text_change Timeline v = no_data\<lparr>timeline := Some v\<rparr>"
| "text_change TeamReadiness v = no_data\<lparr>teamReadiness := Some v\<rparr>"
| "text_change SuccessCriteria v = no_data\<lparr>successCriteria := Some v\<rparr>"
| "text_change ReportingFrequency v = no_data\<lparr>reportingFrequency := Some v\<rparr>"

fun tags_value :: "tags_field \<Rightarrow> BusinessData \<Rightarrow> string list option" where
  "tags_value PrimaryChallenges d = primaryChallenges d"
| "tags_value TimeWasters d = timeWasters d"
| "tags_value CostCenters d = costCenters d"
| "tags_value Competitors d = competitors d"
| "tags_value Differentiators d = differentiators d"
| "tags_value AiGoals d = aiGoals d"
| "tags_value Kpis d = kpis d"

fun tags_change :: "tags_field \<Rightarrow> string list \<Rightarrow> BusinessData" where
  "tags_change PrimaryChallenges v = no_data\<lparr>primaryChallenges := Some v\<rparr>"
| "tags_change TimeWasters v = no_data\<lparr>timeWasters := Some v\<rparr>"
| "tags_change CostCenters v = no_data\<lparr>costCenters := Some v\<rparr>"
| "tags_change Competitors v = no_data\<lparr>competitors := Some v\<rparr>"
| "tags_change Differentiators v = no_data\<lparr>differentiators := Some v\<rparr>"
| "tags_change AiGoals v = no_data\<lparr>aiGoals := Some v\<rparr>"
| "tags_change Kpis v = no_data\<lparr>kpis := Some v\<rparr>"

text \<open>
  \<^verbatim>\<open>String.prototype.trim\<close> removes white space and line terminators at both ends; among
  8-bit characters these are TAB, LF, VT, FF, CR, SP and NBSP.
\<close>

definition is_space :: "char \<Rightarrow> bool" where
  "is_space c = (c \<in> set [CHR 0x09, CHR 0x0A, CHR 0x0B, CHR 0x0C, CHR 0x0D, CHR 0x20, CHR 0xA0])"

definition trim :: "string \<Rightarrow> string" where
  "trim s = rev (dropWhile is_space (rev (dropWhile is_space s)))"

text \<open>\<^verbatim>\<open>value?.includes(x)\<close>: \<^verbatim>\<open>undefined\<close>, which is falsy, when there is no array yet.\<close>

fun array_includes :: "string list option \<Rightarrow> string \<Rightarrow> bool" where
  "array_includes None x = False"
| "array_includes (Some xs) x = (x \<in> set xs)"

text \<open>\<^verbatim>\<open>value || []\<close>.\<close>

fun or_empty :: "string list option \<Rightarrow> string list" where
  "or_empty None = []"
| "or_empty (Some xs) = xs"

text \<open>
  The key handler of a tags field: the array it passes to \<^verbatim>\<open>onChange\<close>, or \<open>None\<close> when it
  does not call \<^verbatim>\<open>onChange\<close>. \<open>key\<close> is the key pressed, \<open>typed\<close> the content of the input, \<open>val\<close>
  the field's \<^verbatim>\<open>value\<close> property.
\<close>

definition tags_onKeyPress :: "string \<Rightarrow> string \<Rightarrow> string list option \<Rightarrow> string list option" where
  "tags_onKeyPress key typed val =
     (if key = ''Enter'' then
        (let newValue = trim typed in
         if newValue \<noteq> [] \<and> \<not> array_includes val newValue
         then Some (or_empty val @ [newValue])
         else None)
      else None)"

text \<open>The remove button of the tag at \<open>index\<close>: \<^verbatim>\<open>value.filter((_, i) => i !== index)\<close>.\<close>

definition tags_remove :: "nat \<Rightarrow> string list \<Rightarrow> string list" where
  "tags_remove index val = map snd (filter (\<lambda>(i, tag). i \<noteq> index) (enumerate 0 val))"

section \<open>The wizard component\<close>

text \<open>
  The component's state is its four \<^verbatim>\<open>useState\<close> cells. A handler runs as an
  \<open>action\<close> over the effects below; \<open>run\<close> applies them to the state in order. The
  asynchronous \<^verbatim>\<open>generatePlan\<close> is run to completion as one handler, the relay's answer
  being an input; console output is not recorded.
\<close>

record wizard_state =
  currentStep :: int
  formData :: BusinessData
  generatedPlan :: json
  loading :: bool

definition initial_state :: wizard_state where
  "initial_state = \<lparr>currentStep = 1, formData = no_data, generatedPlan = JNull, loading = False\<rparr>"

datatype effect =
    SetCurrentStep int
  | MergeFormData BusinessData
  | SetGeneratedPlan json
  | SetLoading bool
  | OnComplete BusinessData
  | FetchRelay string

text \<open>\<^verbatim>\<open>{ ...prev, ...newData }\<close>: a key of \<open>newData\<close> replaces the one of \<open>prev\<close>.\<close>

fun over :: "'a option \<Rightarrow> 'a option \<Rightarrow> 'a option" where
  "over p None = p"
| "over p (Some v) = Some v"

definition spread :: "BusinessData \<Rightarrow> BusinessData \<Rightarrow> BusinessData" where
  "spread prev newData =
    \<lparr>businessName = over (businessName prev) (businessName newData),
     industry = over (industry prev) (industry newData),
     targetMarket = over (targetMarket prev) (targetMarket newData),
     currentRevenue = over (currentRevenue prev) (currentRevenue newData),
     primaryChallenges = over (primaryChallenges prev) (primaryChallenges newData),
     timeWasters = over (timeWasters prev) (timeWasters newData),
     costCenters = over (costCenters prev) (costCenters newData),
     competitors = over (competitors prev) (competitors newData),
     differentiators = over (differentiators prev) (differentiators newData),
     marketPosition = over (marketPosition prev) (marketPosition newData),
     aiGoals = over (aiGoals prev) (aiGoals newData),
     budget = over (budget prev) (budget newData),
     timeline = over (timeline prev) (timeline newData),
     teamReadiness = over (teamReadiness prev) (teamReadiness newData),
     kpis = over (kpis prev) (kpis newData),
     successCriteria = over (successCriteria prev) (successCriteria newData),
     reportingFrequency = over (reportingFrequency prev) (reportingFrequency newData)\<rparr>"

fun apply_effect :: "effect \<Rightarrow> wizard_state \<Rightarrow> wizard_state" where
  "apply_effect (SetCurrentStep n) s = s\<lparr>currentStep := n\<rparr>"
| "apply_effect (MergeFormData newData) s = s\<lparr>formData := spread (formData s) newData\<rparr>"
| "apply_effect (SetGeneratedPlan p) s = s\<lparr>generatedPlan := p\<rparr>"
| "apply_effect (SetLoading b) s = s\<lparr>loading := b\<rparr>"
| "apply_effect (OnComplete d) s = s"
| "apply_effect (FetchRelay prompt) s = s"

definition run :: "effect list \<Rightarrow> wizard_state \<Rightarrow> wizard_state" where
  "run effects s = fold apply_effect effects s"

definition updateFormData :: "BusinessData \<Rightarrow> (effect, unit) action" where
  "updateFormData newData = emit (MergeFormData newData)"

subsection \<open>callClaudeAPI\<close>

text \<open>
  What the browser's \<^verbatim>\<open>fetch('/api/claude')\<close> and \<^verbatim>\<open>response.json()\<close> give: the request
  fails, the body is not JSON, or the body is an object whose \<^verbatim>\<open>success\<close>, \<^verbatim>\<open>content\<close>,
  \<^verbatim>\<open>error\<close> and \<^verbatim>\<open>fallback\<close> properties are read (an absent flag is falsy). The HTTP
  status is not read by the client.
\<close>

record relay_json =
  success :: bool
  content :: "reply_text option"
  error_text :: "string option"
  fallback :: bool

datatype relay_outcome = FetchFailed string | BodyNotJson string | BodyJson relay_json

definition callClaudeAPI :: "relay_outcome \<Rightarrow> string \<Rightarrow> (effect, reply_text option) action" where
  "callClaudeAPI relay prompt =
     try_catch
       (and_then (emit (FetchRelay prompt)) (\<lambda>_.
          case relay of
            FetchFailed m \<Rightarrow> throw (TypeError m)
          | BodyNotJson m \<Rightarrow> throw (SyntaxError m)
          | BodyJson data \<Rightarrow>
              if success data then ret (content data)
              else if fallback data then throw (Error ''API_FALLBACK'')
              else throw (Error (or_else (error_text data) ''Unknown error''))))
       (\<lambda>error. throw error)"

subsection \<open>generatePlan\<close>

definition newline :: string where
  "newline = [CHR 0x0A]"

definition build_prompt :: "BusinessData \<Rightarrow> string" where
  \<open>build_prompt data = join newline
      [
       '''',
       ''        Create a comprehensive AI business domination strategy for:'',
       ''        '',
       ''        Business: '' @ interp (businessName data),
       ''        Industry: '' @ interp (industry data),
       ''        Current Revenue: '' @ interp (currentRevenue data),
       ''        Target Market: '' @ interp (targetMarket data),
       ''        '',
       ''        Key Challenges: '' @ or_else (map_option (join '', '') (primaryChallenges data)) ''None specified'',
       ''        AI Goals: '' @ or_else (map_option (join '', '') (aiGoals data)) ''General improvement'',
       ''        Budget: '' @ or_else (budget data) ''Not specified'',
       ''        Timeline: '' @ or_else (timeline data) ''6 months'',
       ''        '',
       ''        Generate a detailed JSON response with:'',
       ''        {'',
       ''          "executiveSummary": "2-3 sentence strategic overview",'',
       ''          "quickWins": ['',
       ''            {'',
       ''              "action": "specific actionable step",'',
       ''              "impact": "expected business outcome",'',
       ''              "tools": ["AI tool recommendations"],'',
       ''              "timeframe": "30-90 days"'',
       ''            }'',
       ''          ],'',
       ''          "strategicInitiatives": ['',
       ''            {'',
       ''              "initiative": "major project name",'',
       ''              "description": "detailed description and benefits",'',
       ''              "timeframe": "3-12 months",'',
       ''              "budget": "estimated investment",'',
       ''              "roi": "expected return percentage"'',
       ''            }'',
       ''          ],'',
       ''          "implementationRoadmap": {'',
       ''            "phase1": "immediate actions (month 1-2)",'',
       ''            "phase2": "scaling phase (month 3-6)",'',
       ''            "phase3": "optimization phase (month 7-12)"'',
       ''          },'',
       ''          "techStack": ['',
       ''            {'',
       ''              "tool": "specific AI tool/platform",'',
       ''              "purpose": "what it accomplishes",'',
       ''              "integration": "how to implement"'',
       ''            }'',
       ''          ],'',
       ''          "successMetrics": ['',
       ''            {'',
       ''              "metric": "measurable KPI",'',
       ''              "target": "specific numerical goal",'',
       ''              "measurement": "how to track progress"'',
       ''            }'',
       ''          ]'',
       ''        }'',
       ''        '',
       ''        Make this specific to their '' @ interp (industry data) @ '' business with actionable, industry-relevant recommendations.'',
       ''      ''
      ]\<close>

definition fallbackPlan :: "BusinessData \<Rightarrow> json" where
  "fallbackPlan data = JObj
    [(''executiveSummary'', JStr (''Transform '' @ interp (businessName data) @
        '' into an AI-powered industry leader through strategic automation and intelligent decision-making systems.'')),
     (''quickWins'', JArr
       [JObj
         [(''action'', JStr ''Implement AI chatbot for customer service''),
          (''impact'', JStr ''24/7 customer support with 60% cost reduction''),
          (''tools'', JArr [JStr ''ChatGPT API'', JStr ''Intercom'', JStr ''Zendesk'']),
          (''timeframe'', JStr ''30 days'')],
        JObj
         [(''action'', JStr ''Automate data entry and reporting''),
          (''impact'', JStr ''Save 15+ hours per week on manual tasks''),
          (''tools'', JArr [JStr ''Zapier'', JStr ''Microsoft Power Automate'', JStr ''Google Apps Script'']),
          (''timeframe'', JStr ''45 days'')]]),
     (''strategicInitiatives'', JArr
       [JObj
         [(''initiative'', JStr ''Predictive Analytics Platform''),
          (''description'', JStr ''Implement AI-driven analytics to predict customer behavior and optimize business decisions''),
          (''timeframe'', JStr ''3-6 months''),
          (''budget'', JStr ''$15,000-30,000''),
          (''roi'', JStr ''200-400% within 12 months'')]])]"

text \<open>A value computed without effects, or the exception it throws.\<close>

definition lift :: "error + 'a \<Rightarrow> ('e, 'a) action" where
  "lift r = (r, [])"

definition generatePlan :: "relay_outcome \<Rightarrow> BusinessData \<Rightarrow> (effect, unit) action" where
  "generatePlan relay data =
     and_then (emit (SetLoading True)) (\<lambda>_.
       try_finally
         (let prompt = build_prompt data in
          try_catch
            (and_then (callClaudeAPI relay prompt) (\<lambda>response.
             and_then (lift (JSON_parse response)) (\<lambda>plan.
             and_then (emit (SetGeneratedPlan plan)) (\<lambda>_.
             emit (OnComplete data)))))
            (\<lambda>error.
             and_then (emit (SetGeneratedPlan (fallbackPlan data))) (\<lambda>_.
             emit (OnComplete data))))
         (emit (SetLoading False)))"

subsection \<open>handleNext and handlePrevious\<close>

text \<open>
  \<open>handleNext\<close> does not await \<^verbatim>\<open>generatePlan\<close>; its completion here is that of the
  promise it starts.
\<close>

definition handleNext :: "relay_outcome \<Rightarrow> wizard_state \<Rightarrow> (effect, unit) action" where
  "handleNext relay s =
     (if currentStep s < int (length businessWizardSteps)
      then emit (SetCurrentStep (currentStep s + 1))
      else generatePlan relay (formData s))"

definition handlePrevious :: "wizard_state \<Rightarrow> (effect, unit) action" where
  "handlePrevious s =
     (if currentStep s > 1
      then emit (SetCurrentStep (currentStep s - 1))
      else ret ())"

subsection \<open>The fields as the step components wire them\<close>

text \<open>
  A step component gives each \<^verbatim>\<open>FormField\<close> the property \<^verbatim>\<open>data.k\<close> as its value and
  \<^verbatim>\<open>(value) => onChange({ k: value })\<close> as its \<^verbatim>\<open>onChange\<close>, where \<^verbatim>\<open>onChange\<close> is
  \<open>updateFormData\<close>. The remove button exists only for a tag that is shown; without an
  array its \<^verbatim>\<open>value.filter\<close> would throw.
\<close>

definition text_onChange :: "text_field \<Rightarrow> string \<Rightarrow> (effect, unit) action" where
  "text_onChange k v = updateFormData (text_change k v)"

definition tags_keyPressed ::
  "tags_field \<Rightarrow> string \<Rightarrow> string \<Rightarrow> wizard_state \<Rightarrow> (effect, unit) action" where
  "tags_keyPressed k key typed s =
     (case tags_onKeyPress key typed (tags_value k (formData s)) of
        None \<Rightarrow> ret ()
      | Some v \<Rightarrow> updateFormData (tags_change k v))"

definition tags_removeClicked :: "tags_field \<Rightarrow> nat \<Rightarrow> wizard_state \<Rightarrow> (effect, unit) action" where
  "tags_removeClicked k index s =
     (case tags_value k (formData s) of
        None \<Rightarrow> throw (TypeError ''value is undefined'')
      | Some xs \<Rightarrow> updateFormData (tags_change k (tags_remove index xs)))"

text \<open>The user's operations on the wizard, and the state after each.\<close>

datatype operation = Advance relay_outcome | Retreat | Edit BusinessData

fun handler :: "operation \<Rightarrow> wizard_state \<Rightarrow> (effect, unit) action" where
  "handler (Advance relay) s = handleNext relay s"
| "handler Retreat s = handlePrevious s"
| "handler (Edit newData) s = updateFormData newData"

definition perform :: "operation \<Rightarrow> wizard_state \<Rightarrow> wizard_state" where
  "perform op s = run (snd (handler op s)) s"

definition perform_all :: "operation list \<Rightarrow> wizard_state \<Rightarrow> wizard_state" where
  "perform_all ops s = fold perform ops s"

text \<open>
  The plan that \<open>generatePlan\<close> stores: the value parsed from the relay's text, or the
  fallback when the call or the parse throws.
\<close>

definition stored_plan :: "relay_outcome \<Rightarrow> BusinessData \<Rightarrow> json" where
  "stored_plan relay data =
     (case fst (callClaudeAPI relay (build_prompt data)) of
        Inl e \<Rightarrow> fallbackPlan data
      | Inr response \<Rightarrow>
          (case JSON_parse response of Inl e \<Rightarrow> fallbackPlan data | Inr plan \<Rightarrow> plan))"

section \<open>The completion relay: \<open>POST /api/claude\<close>\<close>

text \<open>
  The handler's inputs are the environment variable \<^verbatim>\<open>ANTHROPIC_API_KEY\<close>, what
  \<^verbatim>\<open>request.json()\<close> gives (an exception, or a body whose \<^verbatim>\<open>prompt\<close> is read) and what
  the provider does when called: the call fails, or it answers with a status and a body.
  A body is \<open>Unusable\<close> when \<^verbatim>\<open>response.json()\<close> or reading \<^verbatim>\<open>data.content[0]\<close> throws
  (with the engine's message), and otherwise the \<^verbatim>\<open>text\<close> properties of its content
  blocks. The only effect recorded is a call to an outside service.
\<close>

datatype relay_request = BodyUnreadable string | RequestBody "string option"

datatype provider_body = Unusable string | Blocks "reply_text option list"

datatype provider_outcome = ProviderUnreachable string | ProviderResponse nat provider_body

datatype outbound = FetchProvider "string option"

record 'b response =
  status :: nat
  body :: 'b

text \<open>\<^verbatim>\<open>response.ok\<close>.\<close>

definition ok :: "nat \<Rightarrow> bool" where
  "ok st = (200 \<le> st \<and> st \<le> 299)"

text \<open>A number inside a template literal, for the natural numbers.\<close>

fun decimal :: "nat \<Rightarrow> string" where
  "decimal n =
     (if n < 10 then [''0123456789'' ! n]
      else decimal (n div 10) @ [''0123456789'' ! (n mod 10)])"

text \<open>\<^verbatim>\<open>!process.env.ANTHROPIC_API_KEY\<close>: the variable is unset or empty.\<close>

fun not_configured :: "string option \<Rightarrow> bool" where
  "not_configured None = True"
| "not_configured (Some k) = (k = [])"

text \<open>\<^verbatim>\<open>data.content[0]?.text || 'No response generated'\<close>.\<close>

fun first_text :: "reply_text option list \<Rightarrow> reply_text" where
  "first_text [] = NotJson ''No response generated''"
| "first_text (None # bs) = NotJson ''No response generated''"
| "first_text (Some t # bs) = (if text_empty t then NotJson ''No response generated'' else t)"

text \<open>
  The response of the handler's \<^verbatim>\<open>catch\<close> block, for the message of the exception caught:
  \<^verbatim>\<open>{ success: false, error: message, fallback: true }\<close> with status 500.
\<close>

definition failure_response :: "string \<Rightarrow> relay_json response" where
  "failure_response m =
     \<lparr>status = 500,
      body = \<lparr>success = False, content = None, error_text = Some m, fallback = True\<rparr>\<rparr>"

definition relay_POST ::
  "string option \<Rightarrow> relay_request \<Rightarrow> provider_outcome \<Rightarrow> (outbound, relay_json response) action" where
  "relay_POST api_key request provider =
     try_catch
       (and_then
          (case request of
             BodyUnreadable m \<Rightarrow> throw (SyntaxError m)
           | RequestBody p \<Rightarrow> ret p) (\<lambda>prompt.
        and_then
          (if not_configured api_key
           then throw (Error ''ANTHROPIC_API_KEY not configured'')
           else ret ()) (\<lambda>_.
        and_then (emit (FetchProvider prompt)) (\<lambda>_.
          case provider of
            ProviderUnreachable m \<Rightarrow> throw (TypeError m)
          | ProviderResponse st b \<Rightarrow>
              if \<not> ok st then throw (Error (''Claude API error: '' @ decimal st))
              else
                (case b of
                   Unusable m \<Rightarrow> throw (TypeError m)
                 | Blocks bs \<Rightarrow>
                     ret \<lparr>status = 200,
                          body = \<lparr>success = True, content = Some (first_text bs),
                                   error_text = None, fallback = False\<rparr>\<rparr>)))))
       (\<lambda>error. ret (failure_response (message error)))"

text \<open>
  What the browser gets when its request reaches the relay: the relay's JSON body. (Were
  the handler to throw, the framework's error page would not be JSON.)
\<close>

definition relayed :: "string option \<Rightarrow> provider_outcome \<Rightarrow> string \<Rightarrow> relay_outcome" where
  "relayed api_key provider prompt =
     (case fst (relay_POST api_key (RequestBody (Some prompt)) provider) of
        Inl e \<Rightarrow> BodyNotJson (message e)
      | Inr r \<Rightarrow> BodyJson (body r))"

section \<open>The wizard endpoint: \<open>POST /api/wizard/business\<close>\<close>

text \<open>
  \<^verbatim>\<open>businessDataSchema\<close>. The body is a parsed JSON value. An optional property may be
  absent; when present it must have the type named (\<^verbatim>\<open>null\<close> does not). Properties
  the schema does not name are dropped.
\<close>

datatype action_name = StepInsights | GeneratePlan

record wizard_request =
  action :: action_name
  data :: BusinessData
  step :: "rat option"

fun enum_action :: "json option \<Rightarrow> action_name option" where
  "enum_action (Some (JStr s)) =
     (if s = ''stepInsights'' then Some StepInsights
      else if s = ''generatePlan'' then Some GeneratePlan
      else None)"
| "enum_action _ = None"

fun is_string :: "json \<Rightarrow> bool" where
  "is_string (JStr s) = True"
| "is_string _ = False"

fun optional_string_ok :: "json option \<Rightarrow> bool" where
  "optional_string_ok None = True"
| "optional_string_ok (Some j) = is_string j"

fun optional_strings_ok :: "json option \<Rightarrow> bool" where
  "optional_strings_ok None = True"
| "optional_strings_ok (Some (JArr xs)) = list_all is_string xs"
| "optional_strings_ok (Some _) = False"

fun optional_number_ok :: "json option \<Rightarrow> bool" where
  "optional_number_ok None = True"
| "optional_number_ok (Some (JNum r)) = True"
| "optional_number_ok (Some _) = False"

fun string_of :: "json \<Rightarrow> string" where
  "string_of (JStr s) = s"
| "string_of _ = []"

fun optional_string :: "json option \<Rightarrow> string option" where
  "optional_string (Some (JStr s)) = Some s"
| "optional_string _ = None"

fun optional_strings :: "json option \<Rightarrow> string list option" where
  "optional_strings (Some (JArr xs)) = Some (map string_of xs)"
| "optional_strings _ = None"

fun optional_number :: "json option \<Rightarrow> rat option" where
  "optional_number (Some (JNum r)) = Some r"
| "optional_number _ = None"

definition text_keys :: "string list" where
  "text_keys = [''businessName'', ''industry'', ''targetMarket'', ''currentRevenue'',
     ''marketPosition'', ''budget'', ''timeline'', ''teamReadiness'', ''successCriteria'',
     ''reportingFrequency'']"

definition tags_keys :: "string list" where
  "tags_keys = [''primaryChallenges'', ''timeWasters'', ''costCenters'', ''competitors'',
     ''differentiators'', ''aiGoals'', ''kpis'']"

fun data_schema_parse :: "json option \<Rightarrow> BusinessData option" where
  "data_schema_parse (Some (JObj kvs)) =
     (if list_all (\<lambda>k. optional_string_ok (map_of kvs k)) text_keys \<and>
         list_all (\<lambda>k. optional_strings_ok (map_of kvs k)) tags_keys
      then Some
        \<lparr>businessName = optional_string (map_of kvs ''businessName''),
         industry = optional_string (map_of kvs ''industry''),
         targetMarket = optional_string (map_of kvs ''targetMarket''),
         currentRevenue = optional_string (map_of kvs ''currentRevenue''),
         primaryChallenges = optional_strings (map_of kvs ''primaryChallenges''),
         timeWasters = optional_strings (map_of kvs ''timeWasters''),
         costCenters = optional_strings (map_of kvs ''costCenters''),
         competitors = optional_strings (map_of kvs ''competitors''),
         differentiators = optional_strings (map_of kvs ''differentiators''),
         marketPosition = optional_string (map_of kvs ''marketPosition''),
         aiGoals = optional_strings (map_of kvs ''aiGoals''),
         budget = optional_string (map_of kvs ''budget''),
         timeline = optional_string (map_of kvs ''timeline''),
         teamReadiness = optional_string (map_of kvs ''teamReadiness''),
         kpis = optional_strings (map_of kvs ''kpis''),
         successCriteria = optional_string (map_of kvs ''successCriteria''),
         reportingFrequency = optional_string (map_of kvs ''reportingFrequency'')\<rparr>
      else None)"
| "data_schema_parse _ = None"

text \<open>\<^verbatim>\<open>businessDataSchema.parse(body)\<close>: the parsed request, or a \<^verbatim>\<open>ZodError\<close>.\<close>

fun businessDataSchema_parse :: "json \<Rightarrow> error + wizard_request" where
  "businessDataSchema_parse (JObj kvs) =
     (case (enum_action (map_of kvs ''action''), data_schema_parse (map_of kvs ''data'')) of
        (Some a, Some d) \<Rightarrow>
          if optional_number_ok (map_of kvs ''step'')
          then Inr \<lparr>action = a, data = d, step = optional_number (map_of kvs ''step'')\<rparr>
          else Inl (Error ''ZodError'')
      | _ \<Rightarrow> Inl (Error ''ZodError''))"
| "businessDataSchema_parse _ = Inl (Error ''ZodError'')"

subsection \<open>generateStepInsights\<close>

definition insights :: "(rat \<times> string) list" where
  "insights =
    [(1, ''Based on your business foundation, consider focusing on B2B automation tools to scale efficiently.''),
     (2, ''Your challenges suggest high potential for AI-driven process automation and customer service bots.''),
     (3, ''Your competitive position indicates opportunities for AI-powered differentiation strategies.''),
     (4, ''Your AI goals align well with quick-win opportunities in customer service and data analytics.''),
     (5, ''Your success metrics suggest focusing on measurable ROI from AI implementations.'')]"

definition suggestions :: "string list" where
  "suggestions =
    [''Consider implementing chatbot automation'',
     ''Focus on data analytics for competitive advantage'',
     ''Automate repetitive customer service tasks'']"

definition generateStepInsights :: "BusinessData \<Rightarrow> rat \<Rightarrow> (outbound, json response) action" where
  "generateStepInsights d st =
     ret \<lparr>status = 200,
          body = JObj
            [(''insights'', JStr (or_else (map_of insights st)
                ''Continue to the next step for more insights.'')),
             (''suggestions'', JArr (map JStr suggestions))]\<rparr>"

subsection \<open>generateBusinessPlan\<close>

definition executiveSummary_text :: "BusinessData \<Rightarrow> string" where
  "executiveSummary_text d =
     ''Transform '' @ or_else (businessName d) ''your business'' @ '' into an AI-powered '' @
     or_else (industry d) ''industry'' @
     '' leader through strategic automation, intelligent customer engagement, and data-driven decision making.''"

text \<open>The properties of \<^verbatim>\<open>plan\<close> after \<^verbatim>\<open>executiveSummary\<close>.\<close>

definition plan_sections :: "(string \<times> json) list" where
  "plan_sections =
    [(''quickWins'', JArr
        [JObj
          [(''action'', JStr ''Implement AI-powered customer service chatbot''),
           (''impact'', JStr ''Reduce response time by 80% and support costs by 60%''),
           (''tools'', JArr [JStr ''ChatGPT API'', JStr ''Intercom'', JStr ''Zendesk'']),
           (''timeframe'', JStr ''30 days''),
           (''budget'', JStr ''$2,000-5,000'')],
         JObj
          [(''action'', JStr ''Automate data entry and reporting processes''),
           (''impact'', JStr ''Save 15+ hours per week on manual tasks''),
           (''tools'', JArr [JStr ''Zapier'', JStr ''Microsoft Power Automate'', JStr ''Google Apps Script'']),
           (''timeframe'', JStr ''45 days''),
           (''budget'', JStr ''$1,000-3,000'')],
         JObj
          [(''action'', JStr ''Deploy AI content generation for marketing''),
           (''impact'', JStr ''Increase content output by 300% while reducing costs''),
           (''tools'', JArr [JStr ''GPT-4'', JStr ''Jasper'', JStr ''Copy.ai'']),
           (''timeframe'', JStr ''60 days''),
           (''budget'', JStr ''$500-1,500'')]]),
      (''strategicInitiatives'', JArr
        [JObj
          [(''initiative'', JStr ''Predictive Analytics Platform''),
           (''description'', JStr ''Implement AI-driven analytics to predict customer behavior, optimize inventory, and identify growth opportunities''),
           (''timeframe'', JStr ''3-6 months''),
           (''budget'', JStr ''$15,000-30,000''),
           (''roi'', JStr ''200-400% within 12 months'')],
         JObj
          [(''initiative'', JStr ''Intelligent CRM System''),
           (''description'', JStr ''AI-enhanced customer relationship management with automated lead scoring, personalized communications, and predictive sales forecasting''),
           (''timeframe'', JStr ''4-8 months''),
           (''budget'', JStr ''$20,000-40,000''),
           (''roi'', JStr ''150-300% within 18 months'')],
         JObj
          [(''initiative'', JStr ''Process Automation Suite''),
           (''description'', JStr ''Comprehensive automation of core business processes including invoicing, scheduling, inventory management, and quality control''),
           (''timeframe'', JStr ''6-12 months''),
           (''budget'', JStr ''$25,000-50,000''),
           (''roi'', JStr ''300-500% within 24 months'')]]),
      (''implementationRoadmap'', JObj
        [(''phase1'', JStr ''Foundation Building (Months 1-2): Deploy quick wins, establish data infrastructure, train team on AI tools''),
         (''phase2'', JStr ''Strategic Implementation (Months 3-6): Launch predictive analytics, enhance customer systems, optimize processes''),
         (''phase3'', JStr ''Market Domination (Months 7-12): Scale AI capabilities, develop competitive moats, expand market presence'')]),
      (''techStack'', JArr
        [JObj
          [(''tool'', JStr ''OpenAI GPT-4 API''),
           (''purpose'', JStr ''Natural language processing, content generation, customer service automation''),
           (''integration'', JStr ''API integration with existing systems, custom prompts for business-specific use cases'')],
         JObj
          [(''tool'', JStr ''Zapier/Microsoft Power Automate''),
           (''purpose'', JStr ''Workflow automation and system integration''),
           (''integration'', JStr ''Connect existing tools and automate repetitive tasks across platforms'')],
         JObj
          [(''tool'', JStr ''Tableau/Power BI + AI Analytics''),
           (''purpose'', JStr ''Advanced data visualization and predictive analytics''),
           (''integration'', JStr ''Connect to business databases for real-time insights and forecasting'')],
         JObj
          [(''tool'', JStr ''HubSpot/Salesforce with AI''),
           (''purpose'', JStr ''Intelligent customer relationship management''),
           (''integration'', JStr ''AI-enhanced lead scoring, automated follow-ups, predictive sales analytics'')]]),
      (''successMetrics'', JArr
        [JObj
          [(''metric'', JStr ''Customer Service Efficiency''),
           (''target'', JStr ''80% reduction in response time, 60% cost savings''),
           (''measurement'', JStr ''Track response times, resolution rates, and support costs monthly'')],
         JObj
          [(''metric'', JStr ''Revenue Growth''),
           (''target'', JStr ''25-40% increase in annual revenue through AI optimization''),
           (''measurement'', JStr ''Monthly revenue tracking with AI attribution analysis'')],
         JObj
          [(''metric'', JStr ''Operational Efficiency''),
           (''target'', JStr ''50% reduction in manual task time''),
           (''measurement'', JStr ''Time tracking on automated vs manual processes weekly'')],
         JObj
          [(''metric'', JStr ''Customer Satisfaction''),
           (''target'', JStr ''90%+ satisfaction score with AI-enhanced service''),
           (''measurement'', JStr ''Monthly NPS surveys and customer feedback analysis'')]]),
      (''competitiveAdvantages'', JArr [JStr ''24/7 AI-powered customer service'', JStr ''Predictive analytics for market opportunities'', JStr ''Automated quality control and consistency'', JStr ''Personalized customer experiences at scale'', JStr ''Data-driven decision making across all departments'']),
      (''riskMitigation'', JArr
        [JObj
          [(''risk'', JStr ''AI implementation complexity''),
           (''mitigation'', JStr ''Phased rollout with extensive testing and team training'')],
         JObj
          [(''risk'', JStr ''Data privacy and security concerns''),
           (''mitigation'', JStr ''Implement robust security protocols and compliance measures'')],
         JObj
          [(''risk'', JStr ''Employee resistance to change''),
           (''mitigation'', JStr ''Comprehensive training programs and change management support'')]])]"

definition generateBusinessPlan :: "BusinessData \<Rightarrow> (outbound, json response) action" where
  "generateBusinessPlan d =
     ret \<lparr>status = 200,
          body = JObj
            [(''plan'', JObj ((''executiveSummary'', JStr (executiveSummary_text d)) # plan_sections))]\<rparr>"

subsection \<open>POST\<close>

datatype request_json = BadJson string | BodyOf json

text \<open>\<^verbatim>\<open>step || 1\<close>: an absent step and the number 0 are falsy.\<close>

fun step_or_1 :: "rat option \<Rightarrow> rat" where
  "step_or_1 None = 1"
| "step_or_1 (Some r) = (if r = 0 then 1 else r)"

definition POST :: "request_json \<Rightarrow> (outbound, json response) action" where
  "POST request =
     try_catch
       (and_then
          (case request of
             BadJson m \<Rightarrow> throw (SyntaxError m)
           | BodyOf b \<Rightarrow> ret b) (\<lambda>b.
        and_then (lift (businessDataSchema_parse b)) (\<lambda>r.
          if action r = StepInsights then generateStepInsights (data r) (step_or_1 (step r))
          else if action r = GeneratePlan then generateBusinessPlan (data r)
          else ret \<lparr>status = 400, body = JObj [(''error'', JStr ''Invalid action'')]\<rparr>)))
       (\<lambda>error.
          ret \<lparr>status = 500, body = JObj [(''error'', JStr ''Internal server error'')]\<rparr>)"

section \<open>Notions used to state the properties\<close>

text \<open>
  The structure of a generated plan as the spec's data model describes it and as the prompt
  asks the provider for it: an object with a text \<open>executiveSummary\<close>, the lists
  \<open>quickWins\<close>, \<open>strategicInitiatives\<close>, \<open>techStack\<close> and \<open>successMetrics\<close>, and the
  object \<open>implementationRoadmap\<close>.
\<close>

fun is_array :: "json \<Rightarrow> bool" where
  "is_array (JArr xs) = True"
| "is_array _ = False"

fun is_object :: "json \<Rightarrow> bool" where
  "is_object (JObj kvs) = True"
| "is_object _ = False"

definition has_section :: "(json \<Rightarrow> bool) \<Rightarrow> json \<Rightarrow> string \<Rightarrow> bool" where
  "has_section kind p k = (case json_get p k of None \<Rightarrow> False | Some v \<Rightarrow> kind v)"

definition structurally_valid :: "json \<Rightarrow> bool" where
  "structurally_valid p =
     (has_section is_string p ''executiveSummary'' \<and>
      has_section is_array p ''quickWins'' \<and>
      has_section is_array p ''strategicInitiatives'' \<and>
      has_section is_object p ''implementationRoadmap'' \<and>
      has_section is_array p ''techStack'' \<and>
      has_section is_array p ''successMetrics'')"

text \<open>The names of an object's properties, in order.\<close>

fun property_names :: "json \<Rightarrow> string list" where
  "property_names (JObj kvs) = map fst kvs"
| "property_names _ = []"

text \<open>The prompts sent to the relay among a handler's effects.\<close>

fun relay_calls :: "effect list \<Rightarrow> string list" where
  "relay_calls [] = []"
| "relay_calls (FetchRelay prompt # es) = prompt # relay_calls es"
| "relay_calls (e # es) = relay_calls es"

text \<open>The states the component goes through while a handler's effects are applied.\<close>

fun states_during :: "effect list \<Rightarrow> wizard_state \<Rightarrow> wizard_state list" where
  "states_during [] s = [s]"
| "states_during (e # es) s = s # states_during es (apply_effect e s)"

text \<open>The relay call of \<open>generatePlan\<close> throws, or the text it returns does not parse.\<close>

definition synthesis_failed :: "relay_outcome \<Rightarrow> BusinessData \<Rightarrow> bool" where
  "synthesis_failed relay d =
     (case fst (callClaudeAPI relay (build_prompt d)) of
        Inl e \<Rightarrow> True
      | Inr response \<Rightarrow> isl (JSON_parse response))"

text \<open>The answers of the spec's end-to-end scenario.\<close>

definition acme_retail :: BusinessData where
  "acme_retail = no_data\<lparr>businessName := Some ''Acme'', industry := Some ''Retail''\<rparr>"

section \<open>Properties of the wizard component\<close>

lemmas action_defs = ret_def throw_def emit_def and_then_def try_catch_def try_finally_def lift_def

lemma length_businessWizardSteps: "int (length businessWizardSteps) = 5"
  by (simp add: businessWizardSteps_def)

lemma callClaudeAPI_effects: "snd (callClaudeAPI relay prompt) = [FetchRelay prompt]"
  by (cases relay) (simp_all add: callClaudeAPI_def action_defs)

lemma generatePlan_unfolded:
  "generatePlan relay d =
     (Inr (), [SetLoading True, FetchRelay (build_prompt d),
               SetGeneratedPlan (stored_plan relay d), OnComplete d, SetLoading False])"
  by (cases relay)
     (auto simp add: generatePlan_def stored_plan_def callClaudeAPI_def action_defs Let_def
       split: sum.splits prod.splits option.splits reply_text.splits)

lemma perform_keeps_bounds:
  assumes "1 \<le> currentStep s \<and> currentStep s \<le> 5"
  shows "1 \<le> currentStep (perform op s) \<and> currentStep (perform op s) \<le> 5"
  using assms
  by (cases op)
     (auto simp add: perform_def run_def handleNext_def handlePrevious_def updateFormData_def
        generatePlan_unfolded length_businessWizardSteps emit_def ret_def)

lemma perform_all_keeps_bounds:
  assumes "1 \<le> currentStep s \<and> currentStep s \<le> 5"
  shows "1 \<le> currentStep (perform_all ops s) \<and> currentStep (perform_all ops s) \<le> 5"
  using assms unfolding perform_all_def
proof (induction ops arbitrary: s)
  case Nil
  then show ?case by simp
next
  case (Cons op ops)
  show ?case
    using Cons.IH [OF perform_keeps_bounds [OF Cons.prems]] by simp
qed

text \<open>
  Claim C5. From the initial state (\<open>currentStep = 1\<close>), after any sequence of advance,
  retreat and field-edit operations, whatever the relay answers at each advance,
  \<open>currentStep\<close> lies between 1 and N = 5.
\<close>

theorem currentStep_bounded:
  "1 \<le> currentStep (perform_all ops initial_state) \<and>
   currentStep (perform_all ops initial_state) \<le> int (length businessWizardSteps)"
  using perform_all_keeps_bounds [of initial_state ops]
  by (simp add: initial_state_def length_businessWizardSteps)

text \<open>
  Claim C8. Above step 1, retreat decrements \<open>currentStep\<close> by one and changes nothing
  else; at step 1 it performs no effect and leaves the whole state as it is.
\<close>

theorem retreat_step:
  "(1 < currentStep s \<longrightarrow> perform Retreat s = s\<lparr>currentStep := currentStep s - 1\<rparr>) \<and>
   (currentStep s = 1 \<longrightarrow> snd (handlePrevious s) = [] \<and> perform Retreat s = s)"
  by (simp add: perform_def run_def handlePrevious_def emit_def ret_def)

theorem retreat_step_witness:
  "perform Retreat (initial_state\<lparr>currentStep := 3\<rparr>) = initial_state\<lparr>currentStep := 2\<rparr> \<and>
   perform Retreat initial_state = initial_state"
  using retreat_step [of "initial_state\<lparr>currentStep := 3\<rparr>"] retreat_step [of initial_state]
  by (simp add: initial_state_def)

lemma stored_plan_cases:
  "stored_plan relay d = fallbackPlan d \<or>
   (\<exists>t v. fst (callClaudeAPI relay (build_prompt d)) = Inr t \<and> JSON_parse t = Inr v \<and>
          stored_plan relay d = v)"
  by (auto simp add: stored_plan_def split: sum.splits)

lemma synthesis_failed_fallback:
  "synthesis_failed relay d \<Longrightarrow> stored_plan relay d = fallbackPlan d"
  by (auto simp add: synthesis_failed_def stored_plan_def split: sum.splits)

lemma callClaudeAPI_relayed_unconfigured:
  "not_configured k \<Longrightarrow>
   fst (callClaudeAPI (relayed k provider p) q) = Inl (Error ''API_FALLBACK'')"
  by (simp add: relayed_def relay_POST_def callClaudeAPI_def action_defs failure_response_def)

lemma callClaudeAPI_relayed_not_ok:
  "\<not> ok st \<Longrightarrow>
   fst (callClaudeAPI (relayed k (ProviderResponse st b) p) q) = Inl (Error ''API_FALLBACK'')"
  by (simp add: relayed_def relay_POST_def callClaudeAPI_def action_defs failure_response_def)

text \<open>
  Claim C1, as the code has it. For every answer record and whatever the relay does,
  \<open>generatePlan\<close> completes without an exception, calls the relay once (there is no
  retry), ends with \<open>loading\<close> false, and stores either the value parsed from the relay's
  text, whatever its structure, or the fallback plan, which has the three sections
  \<open>executiveSummary\<close>, \<open>quickWins\<close> and \<open>strategicInitiatives\<close>.
\<close>

theorem generatePlan_resolves:
  "fst (generatePlan relay d) = Inr () \<and>
   relay_calls (snd (generatePlan relay d)) = [build_prompt d] \<and>
   loading (run (snd (generatePlan relay d)) s) = False \<and>
   generatedPlan (run (snd (generatePlan relay d)) s) = stored_plan relay d \<and>
   (stored_plan relay d = fallbackPlan d \<or>
    (\<exists>t v. fst (callClaudeAPI relay (build_prompt d)) = Inr t \<and> JSON_parse t = Inr v \<and>
           stored_plan relay d = v)) \<and>
   property_names (fallbackPlan d) = [''executiveSummary'', ''quickWins'', ''strategicInitiatives'']"
  using stored_plan_cases [of relay d]
  by (simp add: generatePlan_unfolded run_def fallbackPlan_def)

text \<open>
  The claim as stated fails: when the relay returns the text \<^verbatim>\<open>{}\<close>, the plan stored is
  the empty object, and when the relay cannot be reached, the plan stored is the fallback;
  neither has the six sections of a generated plan.
\<close>

theorem generatePlan_counterexample:
  "\<not> structurally_valid
       (generatedPlan (run (snd (generatePlan
          (BodyJson \<lparr>success = True, content = Some (Json (JObj [])),
                     error_text = None, fallback = False\<rparr>)
          acme_retail)) initial_state)) \<and>
   \<not> structurally_valid
       (generatedPlan (run (snd (generatePlan (FetchFailed ''Failed to fetch'') acme_retail))
          initial_state))"
  by (simp add: generatePlan_unfolded run_def stored_plan_def callClaudeAPI_def action_defs
      structurally_valid_def has_section_def fallbackPlan_def)

text \<open>
  Claim C2, as the code has it. When the relay call throws or its text does not parse (in
  particular when the credential is not configured, when the provider's status is not 2xx,
  and when the text returned is not JSON), the plan stored is exactly the fallback plan.
  The fallback depends on the answers through the business name only, and its quick-wins
  list has two entries; when the name is present, the executive summary contains it.
\<close>

theorem fallback_on_failure:
  "(synthesis_failed relay d \<longrightarrow>
      generatedPlan (run (snd (generatePlan relay d)) s) = fallbackPlan d) \<and>
   (not_configured k \<longrightarrow> synthesis_failed (relayed k provider p) d) \<and>
   (\<not> ok st \<longrightarrow> synthesis_failed (relayed k (ProviderResponse st b) p) d) \<and>
   synthesis_failed
     (BodyJson \<lparr>success = True, content = Some (NotJson x), error_text = e, fallback = f\<rparr>) d \<and>
   fallbackPlan d = fallbackPlan (no_data\<lparr>businessName := businessName d\<rparr>) \<and>
   (businessName d = Some n \<longrightarrow>
      (\<exists>summary. json_get (fallbackPlan d) ''executiveSummary'' = Some (JStr summary) \<and>
         sublist n summary)) \<and>
   (\<exists>wins. json_get (fallbackPlan d) ''quickWins'' = Some (JArr wins) \<and> length wins = 2)"
proof -
  have "sublist n (''Transform '' @ n @ '' into an AI-powered industry leader through strategic automation and intelligent decision-making systems.'')"
    by (rule sublist_appendI)
  then have summary:
    "businessName d = Some n \<longrightarrow>
       (\<exists>summary. json_get (fallbackPlan d) ''executiveSummary'' = Some (JStr summary) \<and>
          sublist n summary)"
    by (simp add: fallbackPlan_def)
  have wins: "\<exists>wins. json_get (fallbackPlan d) ''quickWins'' = Some (JArr wins) \<and> length wins = 2"
    by (simp add: fallbackPlan_def)
  have only_name: "fallbackPlan d = fallbackPlan (no_data\<lparr>businessName := businessName d\<rparr>)"
    by (simp add: fallbackPlan_def)
  have unparseable:
    "synthesis_failed
       (BodyJson \<lparr>success = True, content = Some (NotJson x), error_text = e, fallback = f\<rparr>) d"
    by (simp add: synthesis_failed_def callClaudeAPI_def action_defs)
  have failed: "synthesis_failed relay d \<longrightarrow>
      generatedPlan (run (snd (generatePlan relay d)) s) = fallbackPlan d"
    by (simp add: generatePlan_unfolded run_def synthesis_failed_fallback)
  have unconfigured: "not_configured k \<longrightarrow> synthesis_failed (relayed k provider p) d"
    by (simp add: synthesis_failed_def callClaudeAPI_relayed_unconfigured)
  have not_ok: "\<not> ok st \<longrightarrow> synthesis_failed (relayed k (ProviderResponse st b) p) d"
    by (simp add: synthesis_failed_def callClaudeAPI_relayed_not_ok)
  from failed unconfigured not_ok unparseable only_name summary wins
  show ?thesis by blast
qed

theorem fallback_on_failure_witness:
  "generatedPlan (run (snd (generatePlan
      (relayed None (ProviderResponse 200 (Blocks [])) (build_prompt acme_retail)) acme_retail))
      initial_state) = fallbackPlan acme_retail \<and>
   generatedPlan (run (snd (generatePlan
      (relayed (Some ''key'') (ProviderResponse 503 (Unusable ''overloaded''))
         (build_prompt acme_retail)) acme_retail))
      initial_state) = fallbackPlan acme_retail \<and>
   generatedPlan (run (snd (generatePlan
      (relayed None (ProviderResponse 200 (Blocks [])) (build_prompt no_data)) no_data))
      initial_state) = fallbackPlan no_data \<and>
   json_get (fallbackPlan acme_retail) ''executiveSummary'' =
     Some (JStr ''Transform Acme into an AI-powered industry leader through strategic automation and intelligent decision-making systems.'') \<and>
   sublist ''Acme'' ''Transform Acme into an AI-powered industry leader through strategic automation and intelligent decision-making systems.''"
proof -
  have name: "businessName acme_retail = Some ''Acme''"
    by (simp add: acme_retail_def)
  have status: "\<not> ok 503"
    by (simp add: ok_def)
  have unset: "not_configured None"
    by simp
  have summary: "json_get (fallbackPlan acme_retail) ''executiveSummary'' =
     Some (JStr ''Transform Acme into an AI-powered industry leader through strategic automation and intelligent decision-making systems.'')"
    by (simp add: fallbackPlan_def acme_retail_def)
  show ?thesis
    using summary status name unset
      fallback_on_failure
        [where relay = "relayed None (ProviderResponse 200 (Blocks [])) (build_prompt acme_retail)"
           and d = acme_retail and s = initial_state and k = None
           and provider = "ProviderResponse 200 (Blocks [])" and p = "build_prompt acme_retail"
           and n = "''Acme''"]
      fallback_on_failure
        [where relay = "relayed (Some ''key'') (ProviderResponse 503 (Unusable ''overloaded''))
              (build_prompt acme_retail)"
           and d = acme_retail and s = initial_state and st = 503
           and k = "Some ''key''" and b = "Unusable ''overloaded''"
           and p = "build_prompt acme_retail"]
      fallback_on_failure
        [where relay = "relayed None (ProviderResponse 200 (Blocks [])) (build_prompt no_data)"
           and d = no_data and s = initial_state and k = None
           and provider = "ProviderResponse 200 (Blocks [])" and p = "build_prompt no_data"]
    by simp
qed

text \<open>
  The claim as stated fails in the spec's own scenario: with the answers
  \<open>{businessName: "Acme", industry: "Retail"}\<close> and the credential not configured, the
  executive summary of the plan stored does not contain the industry.
\<close>

theorem fallback_counterexample:
  "json_get (generatedPlan (run (snd (generatePlan
       (relayed None (ProviderResponse 200 (Blocks [])) (build_prompt acme_retail)) acme_retail))
       initial_state)) ''executiveSummary'' =
     Some (JStr ''Transform Acme into an AI-powered industry leader through strategic automation and intelligent decision-making systems.'') \<and>
   \<not> sublist ''Retail'' ''Transform Acme into an AI-powered industry leader through strategic automation and intelligent decision-making systems.''"
proof -
  have "\<not> sublist ''Retail'' ''Transform Acme into an AI-powered industry leader through strategic automation and intelligent decision-making systems.''"
    by code_simp
  moreover have
    "stored_plan (relayed None (ProviderResponse 200 (Blocks [])) (build_prompt acme_retail))
       acme_retail = fallbackPlan acme_retail"
    by (simp add: stored_plan_def callClaudeAPI_relayed_unconfigured)
  ultimately show ?thesis
    by (simp add: generatePlan_unfolded run_def fallbackPlan_def acme_retail_def)
qed

text \<open>
  Without a business name, the summary of the fallback reads "Transform undefined into";
  the wizard endpoint's plan says "your business" there.
\<close>

lemma fallback_without_name:
  "businessName d = None \<Longrightarrow>
   json_get (fallbackPlan d) ''executiveSummary'' =
     Some (JStr ''Transform undefined into an AI-powered industry leader through strategic automation and intelligent decision-making systems.'')"
  by (simp add: fallbackPlan_def)

text \<open>
  Claim C4. Below step N = 5, advance performs the single effect of setting
  \<open>currentStep\<close> to its successor, so \<open>generatePlan\<close> is not started. At step 5 it is
  \<open>generatePlan\<close> on the full answers: the relay is called once, with the prompt built from
  \<open>formData\<close>, and \<open>loading\<close>, false before, is true from the first effect until the last,
  which sets it to false again, whether the plan stored is the parsed one or the fallback.
\<close>

theorem advance_step:
  "(currentStep s < 5 \<longrightarrow>
      handleNext relay s = (Inr (), [SetCurrentStep (currentStep s + 1)]) \<and>
      perform (Advance relay) s = s\<lparr>currentStep := currentStep s + 1\<rparr>) \<and>
   (currentStep s = 5 \<longrightarrow>
      handleNext relay s = generatePlan relay (formData s) \<and>
      handleNext relay s =
        (Inr (), [SetLoading True, FetchRelay (build_prompt (formData s)),
                  SetGeneratedPlan (stored_plan relay (formData s)),
                  OnComplete (formData s), SetLoading False]) \<and>
      relay_calls (snd (handleNext relay s)) = [build_prompt (formData s)] \<and>
      (\<not> loading s \<longrightarrow>
         map loading (states_during (snd (handleNext relay s)) s) =
           [False, True, True, True, True, False] \<and>
         remdups_adj (map loading (states_during (snd (handleNext relay s)) s)) =
           [False, True, False]) \<and>
      perform (Advance relay) s =
        s\<lparr>generatedPlan := stored_plan relay (formData s), loading := False\<rparr>)"
  by (simp add: handleNext_def length_businessWizardSteps generatePlan_unfolded emit_def
      perform_def run_def)

theorem advance_step_witness:
  "perform (Advance (FetchFailed ''Failed to fetch'')) initial_state =
     initial_state\<lparr>currentStep := 2\<rparr> \<and>
   remdups_adj (map loading (states_during
      (snd (handleNext (FetchFailed ''Failed to fetch'') (initial_state\<lparr>currentStep := 5\<rparr>)))
      (initial_state\<lparr>currentStep := 5\<rparr>))) = [False, True, False] \<and>
   relay_calls (snd (handleNext (FetchFailed ''Failed to fetch'')
      (initial_state\<lparr>currentStep := 5\<rparr>))) = [build_prompt no_data]"
  using advance_step [of initial_state "FetchFailed ''Failed to fetch''"]
    advance_step [of "initial_state\<lparr>currentStep := 5\<rparr>" "FetchFailed ''Failed to fetch''"]
  by (simp add: initial_state_def generatePlan_unfolded)

subsection \<open>The form fields\<close>

lemma tags_remove_take_drop: "tags_remove i xs = take i xs @ drop (Suc i) xs"
proof -
  have "map snd (filter (\<lambda>(j, tag). j \<noteq> n + i) (enumerate n xs)) = take i xs @ drop (Suc i) xs"
    for n
  proof (induction xs arbitrary: n i)
    case Nil
    then show ?case by simp
  next
    case (Cons x xs)
    show ?case
    proof (cases i)
      case 0
      have "filter (\<lambda>(j, tag). j \<noteq> n) (enumerate (Suc n) xs) = enumerate (Suc n) xs"
        by (rule filter_True) (auto simp add: in_set_enumerate_eq)
      then show ?thesis using 0 by simp
    next
      case (Suc k)
      then show ?thesis using Cons.IH [of "Suc n" k] by simp
    qed
  qed
  from this [of 0] show ?thesis by (simp add: tags_remove_def)
qed

lemma text_round_trip: "text_value k (spread prev (text_change k v)) = Some v"
  by (cases k) (simp_all add: spread_def no_data_def)

lemma tags_round_trip: "tags_value k (spread prev (tags_change k v)) = Some v"
  by (cases k) (simp_all add: spread_def no_data_def)

text \<open>
  Claim C7. A text or selection value written through a field's \<open>onChange\<close> is read back
  from the answers unchanged. In a tags field, Enter on a text whose trimmed form is
  already in the list performs no effect, so the state stays as it is, while a new
  non-empty tag is appended at the end; the remove button of index \<open>i\<close> leaves the tags
  before \<open>i\<close> followed by the tags after \<open>i\<close>, in their order.
\<close>

theorem field_round_trip:
  "text_value k (formData (run (snd (text_onChange k v)) s)) = Some v \<and>
   (tags_value t (formData s) = Some xs \<and> trim typed \<in> set xs \<longrightarrow>
      tags_keyPressed t key typed s = (Inr (), []) \<and>
      run (snd (tags_keyPressed t key typed s)) s = s) \<and>
   (tags_value t (formData s) = Some xs \<and> trim typed \<notin> set xs \<and> trim typed \<noteq> [] \<longrightarrow>
      tags_value t (formData (run (snd (tags_keyPressed t ''Enter'' typed s)) s)) =
        Some (xs @ [trim typed])) \<and>
   (tags_value t (formData s) = Some xs \<longrightarrow>
      tags_value t (formData (run (snd (tags_removeClicked t i s)) s)) =
        Some (take i xs @ drop (Suc i) xs))"
  by (simp add: text_onChange_def tags_keyPressed_def tags_removeClicked_def
      tags_onKeyPress_def updateFormData_def emit_def ret_def run_def
      text_round_trip tags_round_trip tags_remove_take_drop)

lemma trim_examples: "trim '' b '' = ''b''" "trim ''d'' = ''d''"
  by (simp_all add: trim_def is_space_def)

theorem field_round_trip_witness:
  "text_value Industry (formData (run (snd (text_onChange Industry ''Retail'')) initial_state)) =
     Some ''Retail'' \<and>
   tags_keyPressed Competitors ''Enter'' '' b ''
     (initial_state\<lparr>formData := no_data\<lparr>competitors := Some [''a'', ''b'', ''c'']\<rparr>\<rparr>) = (Inr (), []) \<and>
   tags_value Competitors (formData (run (snd (tags_keyPressed Competitors ''Enter'' ''d''
     (initial_state\<lparr>formData := no_data\<lparr>competitors := Some [''a'', ''b'', ''c'']\<rparr>\<rparr>)))
     (initial_state\<lparr>formData := no_data\<lparr>competitors := Some [''a'', ''b'', ''c'']\<rparr>\<rparr>))) =
     Some [''a'', ''b'', ''c'', ''d''] \<and>
   tags_value Competitors (formData (run (snd (tags_removeClicked Competitors 1
     (initial_state\<lparr>formData := no_data\<lparr>competitors := Some [''a'', ''b'', ''c'']\<rparr>\<rparr>)))
     (initial_state\<lparr>formData := no_data\<lparr>competitors := Some [''a'', ''b'', ''c'']\<rparr>\<rparr>))) =
     Some [''a'', ''c'']"
  using
    field_round_trip [of Industry "''Retail''" initial_state Competitors
      "[''a'', ''b'', ''c'']" "'' b ''" "''Enter''" 1]
    field_round_trip [of Industry "''Retail''"
      "initial_state\<lparr>formData := no_data\<lparr>competitors := Some [''a'', ''b'', ''c'']\<rparr>\<rparr>"
      Competitors "[''a'', ''b'', ''c'']" "'' b ''" "''Enter''" 1]
    field_round_trip [of Industry "''Retail''"
      "initial_state\<lparr>formData := no_data\<lparr>competitors := Some [''a'', ''b'', ''c'']\<rparr>\<rparr>"
      Competitors "[''a'', ''b'', ''c'']" "''d''" "''Enter''" 1]
  by (simp add: trim_examples)

section \<open>Properties of the wizard endpoint\<close>

lemma map_of_insights:
  "map_of insights st =
     (if st = 1 then Some ''Based on your business foundation, consider focusing on B2B automation tools to scale efficiently.''
      else if st = 2 then Some ''Your challenges suggest high potential for AI-driven process automation and customer service bots.''
      else if st = 3 then Some ''Your competitive position indicates opportunities for AI-powered differentiation strategies.''
      else if st = 4 then Some ''Your AI goals align well with quick-win opportunities in customer service and data analytics.''
      else if st = 5 then Some ''Your success metrics suggest focusing on measurable ROI from AI implementations.''
      else None)"
  by (simp add: insights_def)

lemma parse_insights_request_without_step:
  "businessDataSchema_parse (JObj [(''action'', JStr ''stepInsights''), (''data'', JObj [])]) =
     Inr \<lparr>action = StepInsights, data = no_data, step = None\<rparr>"
  by (simp add: text_keys_def tags_keys_def no_data_def)

lemma parse_insights_request_with_step:
  "businessDataSchema_parse
     (JObj [(''action'', JStr ''stepInsights''),
            (''data'', JObj [(''industry'', JStr ''Retail'')]),
            (''step'', JNum n)]) =
     Inr \<lparr>action = StepInsights, data = no_data\<lparr>industry := Some ''Retail''\<rparr>, step = Some n\<rparr>"
  by (simp add: text_keys_def tags_keys_def no_data_def)

lemma POST_stepInsights:
  assumes "businessDataSchema_parse b = Inr r" and "action r = StepInsights"
  shows "POST (BodyOf b) = generateStepInsights (data r) (step_or_1 (step r))"
  using assms by (simp add: POST_def action_defs generateStepInsights_def)

text \<open>
  Claim C3, as the code has it. For a step in {1,2,3,4,5}, \<open>generateStepInsights\<close>, and
  with it the endpoint for a request that passes the schema with action \<open>stepInsights\<close>
  and that step, answers with that step's entry of the table, which is not empty and is
  not the generic message (the five entries differ), and with the three suggestions. For
  any other number \<open>generateStepInsights\<close> answers with the generic message and the same
  three suggestions, and so does the endpoint unless the step is 0.
\<close>

theorem step_insights:
  "(st \<in> {1, 2, 3, 4, 5} \<longrightarrow>
      (\<exists>i. map_of insights st = Some i \<and> i \<noteq> [] \<and>
           i \<noteq> ''Continue to the next step for more insights.'' \<and>
           generateStepInsights d st =
             (Inr \<lparr>status = 200,
                   body = JObj
                     [(''insights'', JStr i),
                      (''suggestions'',
                       JArr [JStr ''Consider implementing chatbot automation'',
                             JStr ''Focus on data analytics for competitive advantage'',
                             JStr ''Automate repetitive customer service tasks''])]\<rparr>, []) \<and>
           (businessDataSchema_parse b = Inr r \<and> action r = StepInsights \<and>
            step r = Some st \<longrightarrow>
              POST (BodyOf b) =
                (Inr \<lparr>status = 200,
                      body = JObj
                        [(''insights'', JStr i),
                         (''suggestions'',
                          JArr [JStr ''Consider implementing chatbot automation'',
                                JStr ''Focus on data analytics for competitive advantage'',
                                JStr ''Automate repetitive customer service tasks''])]\<rparr>, [])))) \<and>
   (st \<notin> {1, 2, 3, 4, 5} \<longrightarrow>
      generateStepInsights d st =
        (Inr \<lparr>status = 200,
              body = JObj
                [(''insights'', JStr ''Continue to the next step for more insights.''),
                 (''suggestions'',
                  JArr [JStr ''Consider implementing chatbot automation'',
                        JStr ''Focus on data analytics for competitive advantage'',
                        JStr ''Automate repetitive customer service tasks''])]\<rparr>, []) \<and>
      (st \<noteq> 0 \<and> businessDataSchema_parse b = Inr r \<and> action r = StepInsights \<and>
       step r = Some st \<longrightarrow>
         POST (BodyOf b) =
           (Inr \<lparr>status = 200,
                 body = JObj
                   [(''insights'', JStr ''Continue to the next step for more insights.''),
                    (''suggestions'',
                     JArr [JStr ''Consider implementing chatbot automation'',
                           JStr ''Focus on data analytics for competitive advantage'',
                           JStr ''Automate repetitive customer service tasks''])]\<rparr>, []))) \<and>
   distinct (map snd insights)"
proof -
  have table: "distinct (map snd insights)"
    by (simp add: insights_def)
  have known: "st \<in> {1, 2, 3, 4, 5} \<longrightarrow>
      (\<exists>i. map_of insights st = Some i \<and> i \<noteq> [] \<and>
           i \<noteq> ''Continue to the next step for more insights.'' \<and>
           generateStepInsights d st =
             (Inr \<lparr>status = 200,
                   body = JObj
                     [(''insights'', JStr i),
                      (''suggestions'',
                       JArr [JStr ''Consider implementing chatbot automation'',
                             JStr ''Focus on data analytics for competitive advantage'',
                             JStr ''Automate repetitive customer service tasks''])]\<rparr>, []) \<and>
           (businessDataSchema_parse b = Inr r \<and> action r = StepInsights \<and>
            step r = Some st \<longrightarrow>
              POST (BodyOf b) =
                (Inr \<lparr>status = 200,
                      body = JObj
                        [(''insights'', JStr i),
                         (''suggestions'',
                          JArr [JStr ''Consider implementing chatbot automation'',
                                JStr ''Focus on data analytics for competitive advantage'',
                                JStr ''Automate repetitive customer service tasks''])]\<rparr>, [])))"
    by (auto simp add: POST_stepInsights generateStepInsights_def map_of_insights ret_def
        suggestions_def)
  have other: "st \<notin> {1, 2, 3, 4, 5} \<longrightarrow>
      generateStepInsights d st =
        (Inr \<lparr>status = 200,
              body = JObj
                [(''insights'', JStr ''Continue to the next step for more insights.''),
                 (''suggestions'',
                  JArr [JStr ''Consider implementing chatbot automation'',
                        JStr ''Focus on data analytics for competitive advantage'',
                        JStr ''Automate repetitive customer service tasks''])]\<rparr>, []) \<and>
      (st \<noteq> 0 \<and> businessDataSchema_parse b = Inr r \<and> action r = StepInsights \<and>
       step r = Some st \<longrightarrow>
         POST (BodyOf b) =
           (Inr \<lparr>status = 200,
                 body = JObj
                   [(''insights'', JStr ''Continue to the next step for more insights.''),
                    (''suggestions'',
                     JArr [JStr ''Consider implementing chatbot automation'',
                           JStr ''Focus on data analytics for competitive advantage'',
                           JStr ''Automate repetitive customer service tasks''])]\<rparr>, []))"
    by (auto simp add: POST_stepInsights generateStepInsights_def map_of_insights ret_def
        suggestions_def)
  from known other table show ?thesis by blast
qed

theorem step_insights_witness:
  "generateStepInsights no_data 2 =
     (Inr \<lparr>status = 200,
           body = JObj
             [(''insights'', JStr ''Your challenges suggest high potential for AI-driven process automation and customer service bots.''),
              (''suggestions'',
               JArr [JStr ''Consider implementing chatbot automation'',
                     JStr ''Focus on data analytics for competitive advantage'',
                     JStr ''Automate repetitive customer service tasks''])]\<rparr>, []) \<and>
   POST (BodyOf (JObj [(''action'', JStr ''stepInsights''),
                       (''data'', JObj [(''industry'', JStr ''Retail'')]),
                       (''step'', JNum 2)])) =
     (Inr \<lparr>status = 200,
           body = JObj
             [(''insights'', JStr ''Your challenges suggest high potential for AI-driven process automation and customer service bots.''),
              (''suggestions'',
               JArr [JStr ''Consider implementing chatbot automation'',
                     JStr ''Focus on data analytics for competitive advantage'',
                     JStr ''Automate repetitive customer service tasks''])]\<rparr>, []) \<and>
   generateStepInsights no_data (3 / 2) =
     (Inr \<lparr>status = 200,
           body = JObj
             [(''insights'', JStr ''Continue to the next step for more insights.''),
              (''suggestions'',
               JArr [JStr ''Consider implementing chatbot automation'',
                     JStr ''Focus on data analytics for competitive advantage'',
                     JStr ''Automate repetitive customer service tasks''])]\<rparr>, []) \<and>
   POST (BodyOf (JObj [(''action'', JStr ''stepInsights''),
                       (''data'', JObj [(''industry'', JStr ''Retail'')]),
                       (''step'', JNum 7)])) =
     (Inr \<lparr>status = 200,
           body = JObj
             [(''insights'', JStr ''Continue to the next step for more insights.''),
              (''suggestions'',
               JArr [JStr ''Consider implementing chatbot automation'',
                     JStr ''Focus on data analytics for competitive advantage'',
                     JStr ''Automate repetitive customer service tasks''])]\<rparr>, [])"
  using
    step_insights [where st = 2 and d = no_data
      and b = "JObj [(''action'', JStr ''stepInsights''),
                     (''data'', JObj [(''industry'', JStr ''Retail'')]),
                     (''step'', JNum 2)]"
      and r = "\<lparr>action = StepInsights, data = no_data\<lparr>industry := Some ''Retail''\<rparr>,
                step = Some 2\<rparr>"]
    parse_insights_request_with_step [of 2]
    step_insights [where st = "3 / 2" and d = no_data]
    step_insights [where st = 7 and d = no_data
      and b = "JObj [(''action'', JStr ''stepInsights''),
                     (''data'', JObj [(''industry'', JStr ''Retail'')]),
                     (''step'', JNum 7)]"
      and r = "\<lparr>action = StepInsights, data = no_data\<lparr>industry := Some ''Retail''\<rparr>,
                step = Some 7\<rparr>"]
    parse_insights_request_with_step [of 7]
  by (simp add: map_of_insights)

text \<open>
  The claim as stated fails at the endpoint: the step 0 is outside {1,2,3,4,5}, and a
  request with step 0 is answered with the insight of step 1, not with the generic message.
\<close>

theorem step_insights_counterexample:
  "(0::rat) \<notin> {1, 2, 3, 4, 5} \<and>
   POST (BodyOf (JObj [(''action'', JStr ''stepInsights''),
                       (''data'', JObj [(''industry'', JStr ''Retail'')]),
                       (''step'', JNum 0)])) =
     (Inr \<lparr>status = 200,
           body = JObj
             [(''insights'', JStr ''Based on your business foundation, consider focusing on B2B automation tools to scale efficiently.''),
              (''suggestions'',
               JArr [JStr ''Consider implementing chatbot automation'',
                     JStr ''Focus on data analytics for competitive advantage'',
                     JStr ''Automate repetitive customer service tasks''])]\<rparr>, []) \<and>
   POST (BodyOf (JObj [(''action'', JStr ''stepInsights''),
                       (''data'', JObj [(''industry'', JStr ''Retail'')]),
                       (''step'', JNum 0)])) \<noteq>
     (Inr \<lparr>status = 200,
           body = JObj
             [(''insights'', JStr ''Continue to the next step for more insights.''),
              (''suggestions'',
               JArr [JStr ''Consider implementing chatbot automation'',
                     JStr ''Focus on data analytics for competitive advantage'',
                     JStr ''Automate repetitive customer service tasks''])]\<rparr>, [])"
  by (simp add: POST_stepInsights [OF parse_insights_request_with_step]
      generateStepInsights_def map_of_insights ret_def suggestions_def)

text \<open>
  Claim C10. A request that passes the schema, with action \<open>stepInsights\<close> and with no
  step or step 0, is answered with the insight of step 1 and the list of the three
  suggestions.
\<close>

theorem default_step:
  assumes "businessDataSchema_parse b = Inr r" and "action r = StepInsights"
    and "step r = None \<or> step r = Some 0"
  shows "POST (BodyOf b) =
     (Inr \<lparr>status = 200,
           body = JObj
             [(''insights'', JStr ''Based on your business foundation, consider focusing on B2B automation tools to scale efficiently.''),
              (''suggestions'',
               JArr [JStr ''Consider implementing chatbot automation'',
                     JStr ''Focus on data analytics for competitive advantage'',
                     JStr ''Automate repetitive customer service tasks''])]\<rparr>, [])"
  using assms
  by (auto simp add: POST_def generateStepInsights_def map_of_insights action_defs
      suggestions_def)

theorem default_step_witness:
  "POST (BodyOf (JObj [(''action'', JStr ''stepInsights''), (''data'', JObj [])])) =
     (Inr \<lparr>status = 200,
           body = JObj
             [(''insights'', JStr ''Based on your business foundation, consider focusing on B2B automation tools to scale efficiently.''),
              (''suggestions'',
               JArr [JStr ''Consider implementing chatbot automation'',
                     JStr ''Focus on data analytics for competitive advantage'',
                     JStr ''Automate repetitive customer service tasks''])]\<rparr>, []) \<and>
   POST (BodyOf (JObj [(''action'', JStr ''stepInsights''),
                       (''data'', JObj [(''industry'', JStr ''Retail'')]),
                       (''step'', JNum 0)])) =
     (Inr \<lparr>status = 200,
           body = JObj
             [(''insights'', JStr ''Based on your business foundation, consider focusing on B2B automation tools to scale efficiently.''),
              (''suggestions'',
               JArr [JStr ''Consider implementing chatbot automation'',
                     JStr ''Focus on data analytics for competitive advantage'',
                     JStr ''Automate repetitive customer service tasks''])]\<rparr>, [])"
  using default_step [OF parse_insights_request_without_step]
    default_step [OF parse_insights_request_with_step [of 0]]
  by simp

lemma parse_plan_request:
  "businessDataSchema_parse
     (JObj [(''action'', JStr ''generatePlan''),
            (''data'', JObj [(''businessName'', JStr ''Acme''), (''industry'', JStr ''Retail''),
                             (''budget'', JStr ''Under $5K'')])]) =
     Inr \<lparr>action = GeneratePlan, data = acme_retail\<lparr>budget := Some ''Under $5K''\<rparr>,
          step = None\<rparr>"
  by (simp add: text_keys_def tags_keys_def no_data_def acme_retail_def)

lemma parse_plan_request_other:
  "businessDataSchema_parse
     (JObj [(''action'', JStr ''generatePlan''),
            (''data'', JObj [(''businessName'', JStr ''Acme''), (''industry'', JStr ''Retail''),
                             (''kpis'', JArr [JStr ''Revenue growth''])]),
            (''step'', JNum 4)]) =
     Inr \<lparr>action = GeneratePlan, data = acme_retail\<lparr>kpis := Some [''Revenue growth'']\<rparr>,
          step = Some 4\<rparr>"
  by (simp add: text_keys_def tags_keys_def no_data_def acme_retail_def)

lemma POST_generatePlan:
  assumes "businessDataSchema_parse b = Inr r" and "action r = GeneratePlan"
  shows "POST (BodyOf b) =
     (Inr \<lparr>status = 200,
           body = JObj [(''plan'',
             JObj ((''executiveSummary'', JStr (executiveSummary_text (data r))) # plan_sections))]\<rparr>,
      [])"
  using assms by (simp add: POST_def generateBusinessPlan_def action_defs)

text \<open>
  Claim C9. A request that passes the schema with action \<open>generatePlan\<close> is answered
  without any call to an outside service; two such requests whose answers agree on
  \<open>businessName\<close> and \<open>industry\<close> get the same response; and the plan is the executive
  summary followed by sections that do not depend on the request.
\<close>

theorem plan_endpoint:
  assumes "businessDataSchema_parse b = Inr r" and "action r = GeneratePlan"
    and "businessDataSchema_parse b' = Inr r'" and "action r' = GeneratePlan"
    and "businessName (data r) = businessName (data r')"
    and "industry (data r) = industry (data r')"
  shows "snd (POST (BodyOf b)) = [] \<and>
    POST (BodyOf b) = POST (BodyOf b') \<and>
    (\<exists>summary. fst (POST (BodyOf b)) =
       Inr \<lparr>status = 200,
            body = JObj [(''plan'',
              JObj ((''executiveSummary'', JStr summary) # plan_sections))]\<rparr>)"
  using assms
  by (simp add: POST_generatePlan executiveSummary_text_def)

theorem plan_endpoint_witness:
  "POST (BodyOf (JObj [(''action'', JStr ''generatePlan''),
            (''data'', JObj [(''businessName'', JStr ''Acme''), (''industry'', JStr ''Retail''),
                             (''budget'', JStr ''Under $5K'')])])) =
   POST (BodyOf (JObj [(''action'', JStr ''generatePlan''),
            (''data'', JObj [(''businessName'', JStr ''Acme''), (''industry'', JStr ''Retail''),
                             (''kpis'', JArr [JStr ''Revenue growth''])]),
            (''step'', JNum 4)]))"
proof -
  have same: "businessName (acme_retail\<lparr>budget := Some ''Under $5K''\<rparr>) =
        businessName (acme_retail\<lparr>kpis := Some [''Revenue growth'']\<rparr>) \<and>
      industry (acme_retail\<lparr>budget := Some ''Under $5K''\<rparr>) =
        industry (acme_retail\<lparr>kpis := Some [''Revenue growth'']\<rparr>)"
    by simp
  show ?thesis
    using same plan_endpoint [OF parse_plan_request _ parse_plan_request_other] by simp
qed

section \<open>Properties of the completion relay\<close>




end
